theory Spec2Isabelle
  imports Main "HOL-Library.Word"
begin

section \<open>Book Finder: the search component of storyseeker-hub\<close>

text \<open>
  A shallow embedding of \<^verbatim>\<open>src/components/BookFinder.tsx\<close>. The component keeps five
  \<^verbatim>\<open>useState\<close> cells, runs one asynchronous function (\<^verbatim>\<open>searchBooks\<close>) and renders
  cards from the stored books. The state cells and everything the component emits
  (notices, fetches, console lines, promises still in flight) are one record that
  every handler takes and returns.
\<close>

subsection \<open>Strings and numbers of the language\<close>

text \<open>
  A JavaScript string is a sequence of 16-bit code units. Literals of the source are
  ASCII and are embedded with \<open>lit\<close>.
\<close>

type_synonym jsstring = "16 word list"

definition lit :: "string \<Rightarrow> jsstring" where
  "lit s = map (\<lambda>c. of_nat (of_char c)) s"

text \<open>
  \<^verbatim>\<open>String.prototype.trim\<close> strips WhiteSpace and LineTerminator code units from
  both ends (ECMA-262: TAB, VT, FF, SP, NBSP, ZWNBSP, the category Zs, LF, CR, LS, PS).
\<close>

definition isWhiteSpace :: "16 word \<Rightarrow> bool" where
  "isWhiteSpace u \<longleftrightarrow>
     u = 0x0009 \<or> u = 0x000A \<or> u = 0x000B \<or> u = 0x000C \<or> u = 0x000D \<or>
     u = 0x0020 \<or> u = 0x00A0 \<or> u = 0x1680 \<or> (0x2000 \<le> u \<and> u \<le> 0x200A) \<or>
     u = 0x2028 \<or> u = 0x2029 \<or> u = 0x202F \<or> u = 0x205F \<or> u = 0x3000 \<or>
     u = 0xFEFF"

definition trim :: "jsstring \<Rightarrow> jsstring" where
  "trim s = rev (dropWhile isWhiteSpace (rev (dropWhile isWhiteSpace s)))"

text \<open>
  The decimal digits of a natural number. An array length, and a length less 1 or 3
  where the source has checked that it is larger, prints as exactly these.
\<close>

fun digits :: "nat \<Rightarrow> string" where
  "digits n = (if n < 10 then [char_of (48 + n)]
               else digits (n div 10) @ [char_of (48 + n mod 10)])"

declare digits.simps [simp del]

text \<open>
  A JavaScript number is a double. The numbers the component reads from the catalogue
  (\<^verbatim>\<open>numFound\<close>, \<^verbatim>\<open>cover_i\<close>, \<^verbatim>\<open>first_publish_year\<close>,
  \<^verbatim>\<open>edition_count\<close>) are modelled on the range in which every integer is a
  double of its own and prints as its decimal digits, with a minus sign when negative:
  from \<open>- 2 ^ 53\<close> to \<open>2 ^ 53 - 1\<close>, the values \<open>sint\<close> reads from a 54-bit word.
  The component does no arithmetic on these numbers; it tests them for truthiness and
  prints them. Fractions and larger magnitudes, which print rounded or in exponent
  form, are outside the model.
\<close>

type_synonym jsinteger = "54 word"

definition numberToString :: "jsinteger \<Rightarrow> jsstring" where
  "numberToString n = (if sint n < 0 then lit ''-'' @ lit (digits (nat (- sint n)))
                       else lit (digits (nat (sint n))))"

text \<open>
  \<^verbatim>\<open>encodeURIComponent\<close> (ECMA-262, Encode): a code unit of the unreserved set
  \<^verbatim>\<open>A-Z a-z 0-9 - _ . ! ~ * ' ( )\<close> is kept; any other code point is written as the
  percent-escaped octets of its UTF-8 form; a surrogate that is not part of a pair
  raises \<^verbatim>\<open>URIError\<close>.
\<close>

definition uriUnescaped :: "16 word \<Rightarrow> bool" where
  "uriUnescaped u \<longleftrightarrow>
     (0x41 \<le> u \<and> u \<le> 0x5A) \<or> (0x61 \<le> u \<and> u \<le> 0x7A) \<or> (0x30 \<le> u \<and> u \<le> 0x39) \<or>
     u = 0x2D \<or> u = 0x5F \<or> u = 0x2E \<or> u = 0x21 \<or> u = 0x7E \<or> u = 0x2A \<or>
     u = 0x27 \<or> u = 0x28 \<or> u = 0x29"

definition isLeadingSurrogate :: "16 word \<Rightarrow> bool" where
  "isLeadingSurrogate u \<longleftrightarrow> 0xD800 \<le> u \<and> u \<le> 0xDBFF"

definition isTrailingSurrogate :: "16 word \<Rightarrow> bool" where
  "isTrailingSurrogate u \<longleftrightarrow> 0xDC00 \<le> u \<and> u \<le> 0xDFFF"

definition surrogatePairToCodePoint :: "16 word \<Rightarrow> 16 word \<Rightarrow> nat" where
  "surrogatePairToCodePoint lead trail =
     (unat lead - 0xD800) * 0x400 + (unat trail - 0xDC00) + 0x10000"

definition utf8Octets :: "nat \<Rightarrow> nat list" where
  "utf8Octets cp =
     (if cp < 0x80 then [cp]
      else if cp < 0x800 then [0xC0 + cp div 0x40, 0x80 + cp mod 0x40]
      else if cp < 0x10000 then
        [0xE0 + cp div 0x1000, 0x80 + cp div 0x40 mod 0x40, 0x80 + cp mod 0x40]
      else
        [0xF0 + cp div 0x40000, 0x80 + cp div 0x1000 mod 0x40,
         0x80 + cp div 0x40 mod 0x40, 0x80 + cp mod 0x40])"

definition hexDigit :: "nat \<Rightarrow> 16 word" where
  "hexDigit d = (if d < 10 then of_nat (0x30 + d) else of_nat (0x37 + d))"

definition percentEscape :: "nat \<Rightarrow> jsstring" where
  "percentEscape octet = [0x25, hexDigit (octet div 16), hexDigit (octet mod 16)]"

text \<open>
  The error values the component can catch. Two are raised by the engine inside the
  component and are kept without their engine-specific message: \<^verbatim>\<open>URIError\<close> from
  the encoder, and the \<^verbatim>\<open>TypeError\<close> of reading \<^verbatim>\<open>length\<close> of
  \<^verbatim>\<open>undefined\<close>. The others carry a message: the \<^verbatim>\<open>Error\<close> the component
  throws itself, and whatever \<^verbatim>\<open>fetch\<close> or \<^verbatim>\<open>response.json()\<close> reject with.
\<close>

datatype jserror =
    URIError
  | TypeErrorUndefined
  | Error jsstring
  | TypeError jsstring
  | SyntaxError jsstring

fun encodeURIComponent :: "jsstring \<Rightarrow> jserror + jsstring" where
  "encodeURIComponent [] = Inr []"
| "encodeURIComponent (c # cs) =
     (if uriUnescaped c then
        (case encodeURIComponent cs of Inl e \<Rightarrow> Inl e | Inr r \<Rightarrow> Inr (c # r))
      else if \<not> isLeadingSurrogate c \<and> \<not> isTrailingSurrogate c then
        (case encodeURIComponent cs of Inl e \<Rightarrow> Inl e
         | Inr r \<Rightarrow> Inr (concat (map percentEscape (utf8Octets (unat c))) @ r))
      else if isTrailingSurrogate c then Inl URIError
      else
        (case cs of
           [] \<Rightarrow> Inl URIError
         | d # ds \<Rightarrow>
             if \<not> isTrailingSurrogate d then Inl URIError
             else
               (case encodeURIComponent ds of Inl e \<Rightarrow> Inl e
                | Inr r \<Rightarrow>
                    Inr (concat (map percentEscape
                           (utf8Octets (surrogatePairToCodePoint c d))) @ r))))"

text \<open>
  \<^verbatim>\<open>String.prototype.isWellFormed\<close> (ECMA-262): every leading surrogate is followed
  by a trailing one and no trailing surrogate stands alone. Used to say for which terms
  the encoder does not throw.
\<close>

fun isWellFormed :: "jsstring \<Rightarrow> bool" where
  "isWellFormed [] = True"
| "isWellFormed (c # cs) =
     (if isLeadingSurrogate c then
        (case cs of [] \<Rightarrow> False | d # ds \<Rightarrow> isTrailingSurrogate d \<and> isWellFormed ds)
      else \<not> isTrailingSurrogate c \<and> isWellFormed cs)"

subsection \<open>Data of the component\<close>

record Book =
  key :: jsstring
  title :: jsstring
  author_name :: "jsstring list option"
  first_publish_year :: "jsinteger option"
  isbn :: "jsstring list option"
  cover_i :: "jsinteger option"
  subject :: "jsstring list option"
  publisher :: "jsstring list option"
  language :: "jsstring list option"
  edition_count :: "jsinteger option"

text \<open>
  The interface \<^verbatim>\<open>SearchResponse\<close> declares both fields, but nothing checks the
  parsed body against it, and \<^verbatim>\<open>docs\<close> is the field the component dereferences:
  a body without \<^verbatim>\<open>docs\<close> is \<open>docs = None\<close>. A body whose \<^verbatim>\<open>docs\<close> is
  something other than an array of records is not modelled.
\<close>

record SearchResponse =
  docs :: "Book list option"
  numFound :: jsinteger

datatype SearchType = Title | Author | Subject

primrec typeName :: "SearchType \<Rightarrow> jsstring" where
  "typeName Title = lit ''title''"
| "typeName Author = lit ''author''"
| "typeName Subject = lit ''subject''"

record ToastProps =
  toast_title :: jsstring
  description :: jsstring
  variant :: "jsstring option"

text \<open>
  What \<^verbatim>\<open>await fetch(...)\<close> settles to: a rejection, or a response with its
  \<^verbatim>\<open>ok\<close> flag and what \<^verbatim>\<open>response.json()\<close> settles to. \<open>Inl e\<close> also
  stands for a body that parses to \<^verbatim>\<open>null\<close>: reading \<^verbatim>\<open>data.docs\<close> then throws
  \<open>e\<close> before \<^verbatim>\<open>setBooks\<close> is called, as a rejected parse does.
\<close>

datatype Response = Response (ok: bool) (json: "jserror + SearchResponse")

datatype FetchOutcome = Rejects jserror | Resolves Response

text \<open>
  The five state cells, then what the component has emitted so far: the notices passed
  to \<^verbatim>\<open>toast\<close>, the URLs passed to \<^verbatim>\<open>fetch\<close>, the lines written with
  \<^verbatim>\<open>console.error\<close>, and the calls of \<^verbatim>\<open>searchBooks\<close> suspended at their
  \<^verbatim>\<open>await\<close>. A suspended call is named by the position of its URL in \<open>fetched\<close>
  and remembers the \<^verbatim>\<open>searchType\<close> its closure captured. The cell \<open>books\<close> is
  \<open>None\<close> when \<^verbatim>\<open>setBooks\<close> has stored \<^verbatim>\<open>undefined\<close>.
\<close>

record BookFinder =
  searchQuery :: jsstring
  searchType :: SearchType
  books :: "Book list option"
  loading :: bool
  hasSearched :: bool
  toasts :: "ToastProps list"
  fetched :: "jsstring list"
  console :: "(jsstring \<times> jserror) list"
  inflight :: "(nat \<times> SearchType) list"

definition initial :: BookFinder where
  "initial = \<lparr> searchQuery = [], searchType = Title, books = Some [], loading = False,
      hasSearched = False, toasts = [], fetched = [], console = [], inflight = [] \<rparr>"

subsection \<open>getCoverUrl, searchBooks, handleKeyPress, getBookUrl\<close>

datatype CoverSize = S | M | L

primrec sizeName :: "CoverSize \<Rightarrow> jsstring" where
  "sizeName S = lit ''S''"
| "sizeName M = lit ''M''"
| "sizeName L = lit ''L''"

definition getCoverUrl :: "jsinteger \<Rightarrow> CoverSize \<Rightarrow> jsstring" where
  "getCoverUrl coverId sz =
     lit ''https://covers.openlibrary.org/b/id/'' @ numberToString coverId @ lit ''-'' @
     sizeName sz @ lit ''.jpg''"

definition validationToast :: ToastProps where
  "validationToast = \<lparr> toast_title = lit ''Please enter a search term'',
      description = lit ''Enter a book title, author, or subject to search.'',
      variant = Some (lit ''destructive'') \<rparr>"

definition noBooksToast :: "SearchType \<Rightarrow> ToastProps" where
  "noBooksToast t = \<lparr> toast_title = lit ''No books found'',
      description = lit ''Try searching with different '' @ typeName t @ lit '' terms.'',
      variant = None \<rparr>"

definition successToast :: "jsinteger \<Rightarrow> ToastProps" where
  "successToast n = \<lparr> toast_title = lit ''Search successful!'',
      description = lit ''Found '' @ numberToString n @ lit '' books matching your search.'',
      variant = None \<rparr>"

definition failureToast :: ToastProps where
  "failureToast = \<lparr> toast_title = lit ''Search failed'',
      description = lit ''There was an error searching for books. Please try again.'',
      variant = Some (lit ''destructive'') \<rparr>"

definition searchParam :: "SearchType \<Rightarrow> jsstring" where
  "searchParam t = (if t = Title then lit ''title''
                    else if t = Author then lit ''author'' else lit ''subject'')"

definition searchUrl :: "SearchType \<Rightarrow> jsstring \<Rightarrow> jsstring" where
  "searchUrl t encoded =
     lit ''https://openlibrary.org/search.json?'' @ searchParam t @ lit ''='' @ encoded @
     lit ''&limit=20''"

text \<open>The \<^verbatim>\<open>catch\<close> block followed by the \<^verbatim>\<open>finally\<close> block.\<close>

definition catchFinally :: "jserror \<Rightarrow> BookFinder \<Rightarrow> BookFinder" where
  "catchFinally e w =
     w\<lparr> console := console w @ [(lit ''Search error:'', e)],
        toasts := toasts w @ [failureToast],
        loading := False \<rparr>"

text \<open>
  \<^verbatim>\<open>searchBooks\<close> up to its first \<^verbatim>\<open>await\<close>: the guard on the trimmed term, the
  two setters, the URL and the call of \<^verbatim>\<open>fetch\<close>. The encoder runs inside the
  \<^verbatim>\<open>try\<close>, so its \<^verbatim>\<open>URIError\<close> goes to the \<^verbatim>\<open>catch\<close> block.
\<close>

definition searchBooks :: "BookFinder \<Rightarrow> BookFinder" where
  "searchBooks w =
     (if trim (searchQuery w) = [] then w\<lparr> toasts := toasts w @ [validationToast] \<rparr>
      else
        let w1 = w\<lparr> loading := True, hasSearched := True \<rparr> in
        (case encodeURIComponent (searchQuery w) of
           Inl e \<Rightarrow> catchFinally e w1
         | Inr encoded \<Rightarrow>
             w1\<lparr> fetched := fetched w1 @ [searchUrl (searchType w) encoded],
                 inflight := inflight w1 @ [(length (fetched w1), searchType w)] \<rparr>))"

text \<open>
  The rest of \<^verbatim>\<open>searchBooks\<close>, run when the fetch settles; \<open>t\<close> is the
  \<^verbatim>\<open>searchType\<close> of the suspended call. \<^verbatim>\<open>setBooks(data.docs)\<close> comes first;
  reading \<^verbatim>\<open>data.docs.length\<close> then throws when the body has no \<^verbatim>\<open>docs\<close>.
\<close>

definition searchBooksResume :: "SearchType \<Rightarrow> FetchOutcome \<Rightarrow> BookFinder \<Rightarrow> BookFinder" where
  "searchBooksResume t outcome w =
     (case outcome of
        Rejects e \<Rightarrow> catchFinally e w
      | Resolves response \<Rightarrow>
          if \<not> ok response then catchFinally (Error (lit ''Failed to fetch books'')) w
          else
            (case json response of
               Inl e \<Rightarrow> catchFinally e w
             | Inr data \<Rightarrow>
                 let w1 = w\<lparr> books := docs data \<rparr> in
                 (case docs data of
                    None \<Rightarrow> catchFinally TypeErrorUndefined w1
                  | Some ds \<Rightarrow>
                      let w2 = (if length ds = 0
                                then w1\<lparr> toasts := toasts w1 @ [noBooksToast t] \<rparr>
                                else w1\<lparr> toasts := toasts w1 @ [successToast (numFound data)] \<rparr>)
                      in w2\<lparr> loading := False \<rparr>)))"

definition handleKeyPress :: "jsstring \<Rightarrow> BookFinder \<Rightarrow> BookFinder" where
  "handleKeyPress k w = (if k = lit ''Enter'' then searchBooks w else w)"

definition getBookUrl :: "Book \<Rightarrow> jsstring" where
  "getBookUrl book = lit ''https://openlibrary.org'' @ key book"

subsection \<open>What is rendered\<close>

text \<open>
  JSX conditions test truthiness: an absent field and the number 0 are both falsy, and
  \<^verbatim>\<open>0 && x\<close> renders the number 0 itself.
\<close>

definition truthy :: "jsinteger option \<Rightarrow> bool" where
  "truthy x = (case x of None \<Rightarrow> False | Some n \<Rightarrow> n \<noteq> 0)"

datatype Img = Img (src: jsstring) (alt: jsstring)

datatype YearNode = NoYear | BareNumber jsinteger | YearLine jsinteger

record Card =
  cover_img :: "Img option"
  placeholder_hidden :: bool
  heading :: jsstring
  author_line :: "jsstring option"
  year_node :: YearNode
  subject_block :: bool
  subject_badges :: "jsstring list"
  more_badge :: "jsstring option"
  details_href :: jsstring

definition renderCard :: "Book \<Rightarrow> Card" where
  "renderCard book =
     \<lparr> cover_img =
         (if truthy (cover_i book)
          then Some (Img (getCoverUrl (the (cover_i book)) M) (lit ''Cover of '' @ title book))
          else None),
       placeholder_hidden = truthy (cover_i book),
       heading = title book,
       author_line =
         (case author_name book of
            None \<Rightarrow> None
          | Some names \<Rightarrow>
              if length names > 0
              then Some (hd names @
                     (if length names > 1
                      then lit '' +'' @ lit (digits (length names - 1)) @ lit '' more''
                      else []))
              else None),
       year_node =
         (case first_publish_year book of
            None \<Rightarrow> NoYear
          | Some y \<Rightarrow> if y = 0 then BareNumber y else YearLine y),
       subject_block =
         (case subject book of None \<Rightarrow> False | Some ss \<Rightarrow> length ss > 0),
       subject_badges =
         (case subject book of
            None \<Rightarrow> []
          | Some ss \<Rightarrow> if length ss > 0 then take 3 ss else []),
       more_badge =
         (case subject book of
            None \<Rightarrow> None
          | Some ss \<Rightarrow>
              if length ss > 0 \<and> length ss > 3
              then Some (lit ''+'' @ lit (digits (length ss - 3)))
              else None),
       details_href = getBookUrl book \<rparr>"

record View =
  input_placeholder :: jsstring
  input_value :: jsstring
  search_disabled :: bool
  search_label :: jsstring
  skeleton_cards :: nat
  results :: "Card list option"
  no_results :: bool
  welcome_panel :: bool

text \<open>
  The two conditions on \<^verbatim>\<open>books.length\<close> are evaluated only when
  \<^verbatim>\<open>!loading && hasSearched\<close> holds. When they are and \<open>books\<close> holds
  \<^verbatim>\<open>undefined\<close>, reading \<^verbatim>\<open>length\<close> throws and there is no rendering: the
  result is \<open>None\<close>.
\<close>

definition render :: "BookFinder \<Rightarrow> View option" where
  "render w =
     (if \<not> loading w \<and> hasSearched w \<and> books w = None then None
      else Some
        \<lparr> input_placeholder = lit ''Search by '' @ typeName (searchType w) @ lit ''...'',
          input_value = searchQuery w,
          search_disabled = loading w,
          search_label = (if loading w then lit ''Searching...'' else lit ''Search''),
          skeleton_cards = (if loading w then 8 else 0),
          results =
            (case books w of
               None \<Rightarrow> None
             | Some bs \<Rightarrow>
                 if \<not> loading w \<and> hasSearched w \<and> length bs > 0
                 then Some (map renderCard bs) else None),
          no_results =
            (case books w of
               None \<Rightarrow> False
             | Some bs \<Rightarrow> \<not> loading w \<and> hasSearched w \<and> length bs = 0),
          welcome_panel = (\<not> hasSearched w) \<rparr>)"

subsection \<open>Events\<close>

text \<open>
  What can happen to the mounted component: typing in the input, choosing a search
  type, a click on the search button (rendered with \<^verbatim>\<open>disabled={loading}\<close>, so a
  click while loading delivers nothing), a key press in the input, and a pending fetch
  settling. Each handler runs to its end (or to its \<^verbatim>\<open>await\<close>) before the next
  event, and the handlers of the next event close over the state it left. \<open>step\<close> and
  \<open>run\<close> apply the handlers to the cells; what the framework does with a component
  whose rendering has thrown is not part of this source and is not modelled.
\<close>

datatype Event =
    Change jsstring
  | SelectType SearchType
  | ClickSearch
  | KeyPress jsstring
  | Settle nat FetchOutcome

definition settle :: "nat \<Rightarrow> FetchOutcome \<Rightarrow> BookFinder \<Rightarrow> BookFinder" where
  "settle i outcome w =
     (case map_of (inflight w) i of
        None \<Rightarrow> w
      | Some t \<Rightarrow>
          searchBooksResume t outcome
            (w\<lparr> inflight := filter (\<lambda>p. fst p \<noteq> i) (inflight w) \<rparr>))"

fun step :: "BookFinder \<Rightarrow> Event \<Rightarrow> BookFinder" where
  "step w (Change v) = w\<lparr> searchQuery := v \<rparr>"
| "step w (SelectType t) = w\<lparr> searchType := t \<rparr>"
| "step w ClickSearch = (if loading w then w else searchBooks w)"
| "step w (KeyPress k) = handleKeyPress k w"
| "step w (Settle i outcome) = settle i outcome w"

definition run :: "BookFinder \<Rightarrow> Event list \<Rightarrow> BookFinder" where
  "run w es = foldl step w es"

subsection \<open>Observations on a run\<close>

text \<open>
  What the \<^verbatim>\<open>try\<close> block of \<^verbatim>\<open>searchBooks\<close> throws before the body is read:
  the rejection of \<^verbatim>\<open>fetch\<close>, the \<^verbatim>\<open>Error\<close> of the \<^verbatim>\<open>!response.ok\<close> test, or
  the rejection of \<^verbatim>\<open>response.json()\<close>; nothing when the body parses.
\<close>

definition transportError :: "FetchOutcome \<Rightarrow> jserror option" where
  "transportError outcome =
     (case outcome of
        Rejects e \<Rightarrow> Some e
      | Resolves response \<Rightarrow>
          if \<not> ok response then Some (Error (lit ''Failed to fetch books''))
          else (case json response of Inl e \<Rightarrow> Some e | Inr data \<Rightarrow> None))"






text \<open>A catalogue record with only the two mandatory fields, for concrete runs.\<close>

definition plainBook :: "jsstring \<Rightarrow> jsstring \<Rightarrow> Book" where
  "plainBook k t = \<lparr> key = k, title = t, author_name = None, first_publish_year = None,
      isbn = None, cover_i = None, subject = None, publisher = None, language = None,
      edition_count = None \<rparr>"

section \<open>Properties\<close>

subsection \<open>Auxiliary facts\<close>

lemma dropWhile_all_Nil:
  assumes "\<forall>x\<in>set (dropWhile P xs). P x"
  shows "dropWhile P xs = []"
proof (rule ccontr)
  assume ne: "dropWhile P xs \<noteq> []"
  then have "\<not> P (hd (dropWhile P xs))" by (rule hd_dropWhile)
  moreover from ne have "hd (dropWhile P xs) \<in> set (dropWhile P xs)" by simp
  ultimately show False using assms by blast
qed

lemma trim_empty_iff: "trim q = [] \<longleftrightarrow> (\<forall>u\<in>set q. isWhiteSpace u)"
proof
  assume "trim q = []"
  then have "\<forall>x\<in>set (dropWhile isWhiteSpace q). isWhiteSpace x"
    by (simp add: trim_def dropWhile_eq_Nil_conv)
  then have "dropWhile isWhiteSpace q = []" by (rule dropWhile_all_Nil)
  then show "\<forall>u\<in>set q. isWhiteSpace u"
    by (simp add: dropWhile_eq_Nil_conv)
next
  assume "\<forall>u\<in>set q. isWhiteSpace u"
  then have d: "dropWhile isWhiteSpace q = []" by (simp add: dropWhile_eq_Nil_conv)
  show "trim q = []" unfolding trim_def d by simp
qed

lemma searchParam_typeName: "searchParam t = typeName t"
  by (cases t) (simp_all add: searchParam_def)

lemma run_Nil [simp]: "run w [] = w"
  by (simp add: run_def)

lemma run_Cons [simp]: "run w (ev # evs) = run (step w ev) evs"
  by (simp add: run_def)

lemma run_snoc: "run w (evs @ [ev]) = step (run w evs) ev"
  by (simp add: run_def)

lemma resume_success:
  "docs data = Some ds \<Longrightarrow>
   searchBooksResume t (Resolves (Response True (Inr data))) w =
     w\<lparr> books := Some ds,
        toasts := toasts w @ [if ds = [] then noBooksToast t
                              else successToast (numFound data)],
        loading := False \<rparr>"
  by (simp add: searchBooksResume_def Let_def)

lemma resume_parsed_books:
  "books (searchBooksResume t (Resolves (Response True (Inr data))) w) = docs data"
  by (simp add: searchBooksResume_def catchFinally_def Let_def split: option.splits)

lemma resume_transportError:
  "transportError outcome = Some e \<Longrightarrow> searchBooksResume t outcome w = catchFinally e w"
  by (auto simp: transportError_def searchBooksResume_def
      split: FetchOutcome.splits sum.splits if_splits)


lemma resume_keeps:
  "hasSearched (searchBooksResume t outcome w) = hasSearched w"
  "inflight (searchBooksResume t outcome w) = inflight w"
  "fetched (searchBooksResume t outcome w) = fetched w"
  "loading (searchBooksResume t outcome w) = False"
  by (auto simp: searchBooksResume_def catchFinally_def Let_def
      split: FetchOutcome.splits sum.splits option.splits)


lemma searchBooks_inv:
  "inflight (searchBooks w) \<noteq> [] \<Longrightarrow> inflight w = [] \<Longrightarrow> hasSearched (searchBooks w)"
  by (auto simp: searchBooks_def catchFinally_def Let_def split: sum.splits if_splits)

lemma searchBooks_hasSearched_mono: "hasSearched w \<Longrightarrow> hasSearched (searchBooks w)"
  by (auto simp: searchBooks_def catchFinally_def Let_def split: sum.splits if_splits)

lemma step_inv:
  assumes "inflight w \<noteq> [] \<longrightarrow> hasSearched w"
  shows "inflight (step w ev) \<noteq> [] \<longrightarrow> hasSearched (step w ev)"
proof (cases ev)
  case (Change v) with assms show ?thesis by simp
next
  case (SelectType t) with assms show ?thesis by simp
next
  case ClickSearch
  with assms show ?thesis
    by (cases "inflight w = []") (auto dest: searchBooks_inv searchBooks_hasSearched_mono)
next
  case (KeyPress k)
  with assms show ?thesis
    by (cases "inflight w = []")
       (auto simp: handleKeyPress_def dest: searchBooks_inv searchBooks_hasSearched_mono)
next
  case (Settle i outcome)
  show ?thesis
  proof (cases "map_of (inflight w) i")
    case None with Settle assms show ?thesis by (simp add: settle_def)
  next
    case (Some t)
    then have "inflight w \<noteq> []" by auto
    with assms have "hasSearched w" by simp
    with Settle Some show ?thesis by (simp add: settle_def resume_keeps)
  qed
qed

lemma run_inv:
  "(inflight w \<noteq> [] \<longrightarrow> hasSearched w) \<Longrightarrow>
   (inflight (run w evs) \<noteq> [] \<longrightarrow> hasSearched (run w evs))"
proof (induction evs arbitrary: w)
  case Nil then show ?case by simp
next
  case (Cons ev evs)
  from Cons.prems have "inflight (step w ev) \<noteq> [] \<longrightarrow> hasSearched (step w ev)"
    by (rule step_inv)
  then show ?case using Cons.IH by simp
qed

lemma inflight_hasSearched:
  "map_of (inflight (run initial evs)) i = Some t \<Longrightarrow> hasSearched (run initial evs)"
proof -
  assume a: "map_of (inflight (run initial evs)) i = Some t"
  then have "inflight (run initial evs) \<noteq> []" by auto
  moreover have "inflight (run initial evs) \<noteq> [] \<longrightarrow> hasSearched (run initial evs)"
    by (rule run_inv) (simp add: initial_def)
  ultimately show ?thesis by simp
qed

lemma map_of_filter_other:
  "j \<noteq> i \<Longrightarrow> map_of (filter (\<lambda>p. fst p \<noteq> i) xs) j = map_of xs j"
  by (induction xs) auto




lemma unescaped_not_surrogate:
  "uriUnescaped c \<Longrightarrow> \<not> isLeadingSurrogate c \<and> \<not> isTrailingSurrogate c"
  unfolding uriUnescaped_def isLeadingSurrogate_def isTrailingSurrogate_def
  by (auto simp: word_le_nat_alt)

lemma leading_not_trailing: "isLeadingSurrogate c \<Longrightarrow> \<not> isTrailingSurrogate c"
  unfolding isLeadingSurrogate_def isTrailingSurrogate_def
  by (auto simp: word_le_nat_alt)

lemma encodable_iff_wellFormed:
  "(\<exists>enc. encodeURIComponent q = Inr enc) \<longleftrightarrow> isWellFormed q"
proof (induction q rule: isWellFormed.induct)
  case 1
  show ?case by simp
next
  case (2 c cs)
  show ?case
  proof (cases "isLeadingSurrogate c")
    case True
    then have nt: "\<not> isTrailingSurrogate c" and nu: "\<not> uriUnescaped c"
      using leading_not_trailing unescaped_not_surrogate by blast+
    show ?thesis
    proof (cases cs)
      case Nil
      with True nt nu show ?thesis by simp
    next
      case (Cons d ds)
      with True nt nu "2.IH"(1) [OF True Cons] show ?thesis
        by (auto split: sum.splits)
    qed
  next
    case False
    with "2.IH"(2) [OF False] show ?thesis
      by (auto split: sum.splits dest: unescaped_not_surrogate)
  qed
qed

text \<open>The definitions a concrete run unfolds.\<close>

lemmas eval_defs =
  initial_def render_def searchBooks_def handleKeyPress_def settle_def searchBooksResume_def
  catchFinally_def searchUrl_def searchParam_def Let_def trim_def lit_def isWhiteSpace_def
  uriUnescaped_def isLeadingSurrogate_def isTrailingSurrogate_def utf8Octets_def
  percentEscape_def hexDigit_def

subsection \<open>The guard on the search term\<close>

text \<open>
  Claim C1. When the search term is empty or consists of white space only,
  \<^verbatim>\<open>searchBooks\<close> adds the validation notice and changes nothing else: no URL is
  fetched, nothing is left in flight, \<open>loading\<close>, \<open>hasSearched\<close> and \<open>books\<close> keep their
  values and the rendering is the same. The Enter key and a click on the enabled
  button both run \<^verbatim>\<open>searchBooks\<close>.
\<close>

theorem blank_term_is_refused:
  assumes "\<forall>u\<in>set (searchQuery w). isWhiteSpace u"
  shows "searchBooks w = w\<lparr> toasts := toasts w @ [validationToast] \<rparr> \<and>
         fetched (searchBooks w) = fetched w \<and>
         inflight (searchBooks w) = inflight w \<and>
         loading (searchBooks w) = loading w \<and>
         hasSearched (searchBooks w) = hasSearched w \<and>
         books (searchBooks w) = books w \<and>
         render (searchBooks w) = render w \<and>
         step w (KeyPress (lit ''Enter'')) = searchBooks w \<and>
         (\<not> loading w \<longrightarrow> step w ClickSearch = searchBooks w)"
proof -
  from assms have "trim (searchQuery w) = []" by (simp add: trim_empty_iff)
  then have eq: "searchBooks w = w\<lparr> toasts := toasts w @ [validationToast] \<rparr>"
    by (simp add: searchBooks_def)
  show ?thesis
    by (simp add: eq render_def handleKeyPress_def split: option.splits)
qed

theorem blank_term_is_refused_witness:
  "list_all isWhiteSpace (searchQuery (initial\<lparr> searchQuery := lit ''   '' \<rparr>)) \<and>
   toasts (searchBooks (initial\<lparr> searchQuery := lit ''   '' \<rparr>)) = [validationToast] \<and>
   fetched (searchBooks (initial\<lparr> searchQuery := lit ''   '' \<rparr>)) = [] \<and>
   \<not> loading (searchBooks (initial\<lparr> searchQuery := lit ''   '' \<rparr>)) \<and>
   \<not> hasSearched (searchBooks (initial\<lparr> searchQuery := lit ''   '' \<rparr>))"
proof -
  have h: "\<forall>u\<in>set (searchQuery (initial\<lparr> searchQuery := lit ''   '' \<rparr>)). isWhiteSpace u"
    by (simp add: lit_def isWhiteSpace_def)
  from blank_term_is_refused [OF h] show ?thesis
    using h by (simp add: initial_def list_all_iff)
qed

subsection \<open>Cards\<close>

text \<open>
  Claim C8, as amended. A record whose \<^verbatim>\<open>cover_i\<close> is present and not 0 gets an
  image whose URL is the fixed host followed by the identifier, a dash, the size tag M
  and \<^verbatim>\<open>.jpg\<close>; \<^verbatim>\<open>getCoverUrl\<close> builds that template for each of the size tags
  S, M and L. A record without \<^verbatim>\<open>cover_i\<close> gets no image and the placeholder is
  shown.
\<close>

theorem cover_url_from_template:
  "(cover_i book = Some c \<and> c \<noteq> 0 \<longrightarrow>
      cover_img (renderCard book) =
        Some (Img (lit ''https://covers.openlibrary.org/b/id/'' @ numberToString c @ lit ''-'' @
                   sizeName M @ lit ''.jpg'')
                  (lit ''Cover of '' @ title book)) \<and>
      placeholder_hidden (renderCard book)) \<and>
   (cover_i book = None \<longrightarrow>
      cover_img (renderCard book) = None \<and> \<not> placeholder_hidden (renderCard book)) \<and>
   getCoverUrl c sz =
     lit ''https://covers.openlibrary.org/b/id/'' @ numberToString c @ lit ''-'' @
     sizeName sz @ lit ''.jpg'' \<and>
   sizeName sz \<in> {lit ''S'', lit ''M'', lit ''L''}"
  by (cases sz) (simp_all add: renderCard_def truthy_def getCoverUrl_def)

theorem cover_url_from_template_witness:
  "cover_img (renderCard ((plainBook (lit ''/works/OL1W'') (lit ''T''))\<lparr> cover_i := Some 8231856 \<rparr>))
     = Some (Img (lit ''https://covers.openlibrary.org/b/id/8231856-M.jpg'') (lit ''Cover of T'')) \<and>
   cover_img (renderCard (plainBook (lit ''/works/OL1W'') (lit ''T''))) = None \<and>
   \<not> placeholder_hidden (renderCard (plainBook (lit ''/works/OL1W'') (lit ''T'')))"
  using cover_url_from_template
      [of "(plainBook (lit ''/works/OL1W'') (lit ''T''))\<lparr> cover_i := Some 8231856 \<rparr>" 8231856 M]
    cover_url_from_template [of "plainBook (lit ''/works/OL1W'') (lit ''T'')" 0 M]
  by (simp add: plainBook_def numberToString_def digits.simps lit_def)

text \<open>
  Claim C8 as written fails for a record whose \<^verbatim>\<open>cover_i\<close> is present and 0: no
  image is rendered for it.
\<close>

theorem cover_present_zero_counterexample:
  "cover_i ((plainBook (lit ''/works/OL1W'') (lit ''T''))\<lparr> cover_i := Some 0 \<rparr>) = Some 0 \<and>
   cover_img (renderCard ((plainBook (lit ''/works/OL1W'') (lit ''T''))\<lparr> cover_i := Some 0 \<rparr>))
     = None \<and>
   cover_img (renderCard ((plainBook (lit ''/works/OL1W'') (lit ''T''))\<lparr> cover_i := Some 0 \<rparr>))
     \<noteq> Some (Img (getCoverUrl 0 M) (lit ''Cover of '' @ lit ''T''))"
  by (simp add: renderCard_def truthy_def plainBook_def)

text \<open>
  Claim C10. A record whose \<^verbatim>\<open>cover_i\<close> is present and equal to 0 is rendered as
  one without a cover: no image element, and the placeholder is not hidden.
\<close>

theorem cover_zero_is_absent:
  assumes "cover_i book = Some 0"
  shows "cover_img (renderCard book) = None \<and> \<not> placeholder_hidden (renderCard book)"
  using assms by (simp add: renderCard_def truthy_def)

theorem cover_zero_is_absent_witness:
  "cover_img (renderCard ((plainBook (lit ''/works/OL2W'') (lit ''U''))\<lparr> cover_i := Some 0 \<rparr>)) = None \<and>
   \<not> placeholder_hidden
       (renderCard ((plainBook (lit ''/works/OL2W'') (lit ''U''))\<lparr> cover_i := Some 0 \<rparr>))"
  using cover_zero_is_absent [of "(plainBook (lit ''/works/OL2W'') (lit ''U''))\<lparr> cover_i := Some 0 \<rparr>"]
  by (simp add: plainBook_def)

text \<open>
  Claim C9. A record with \<open>k\<close> subjects shows its first \<open>min k 3\<close> subjects as
  labels; when \<open>k > 3\<close> it shows one more label, a plus sign followed by \<open>k - 3\<close> in
  decimal, and no such label when \<open>k \<le> 3\<close>.
\<close>

theorem subject_badges_shown:
  assumes "subject book = Some ss"
  shows "subject_badges (renderCard book) = take 3 ss \<and>
         length (subject_badges (renderCard book)) = min (length ss) 3 \<and>
         (length ss > 3 \<longrightarrow>
            more_badge (renderCard book) = Some (lit ''+'' @ lit (digits (length ss - 3)))) \<and>
         (length ss \<le> 3 \<longrightarrow> more_badge (renderCard book) = None)"
  using assms by (auto simp: renderCard_def)

theorem subject_badges_shown_witness:
  "subject_badges (renderCard ((plainBook (lit ''/works/OL1W'') (lit ''T''))
      \<lparr> subject := Some [lit ''a'', lit ''b'', lit ''c'', lit ''d'', lit ''e''] \<rparr>))
     = [lit ''a'', lit ''b'', lit ''c''] \<and>
   more_badge (renderCard ((plainBook (lit ''/works/OL1W'') (lit ''T''))
      \<lparr> subject := Some [lit ''a'', lit ''b'', lit ''c'', lit ''d'', lit ''e''] \<rparr>))
     = Some (lit ''+2'')"
  using subject_badges_shown [of "(plainBook (lit ''/works/OL1W'') (lit ''T''))
      \<lparr> subject := Some [lit ''a'', lit ''b'', lit ''c'', lit ''d'', lit ''e''] \<rparr>"
      "[lit ''a'', lit ''b'', lit ''c'', lit ''d'', lit ''e'']"]
  by (simp add: digits.simps lit_def plainBook_def)

subsection \<open>The request\<close>

text \<open>
  Claim C3, as amended. When the trimmed term is not empty and the term is well-formed
  UTF-16, \<^verbatim>\<open>searchBooks\<close> passes exactly one URL to \<^verbatim>\<open>fetch\<close>: the fixed endpoint,
  the name of the selected search type, an equals sign, the encoding of the term as it
  was entered (not trimmed), and \<^verbatim>\<open>&limit=20\<close>. The call is left in flight with
  \<open>loading\<close> and \<open>hasSearched\<close> set, and no notice is raised.
\<close>

theorem search_request_issued:
  assumes "trim (searchQuery w) \<noteq> []"
    and "isWellFormed (searchQuery w)"
  shows "\<exists>enc. encodeURIComponent (searchQuery w) = Inr enc \<and>
           fetched (searchBooks w) =
             fetched w @ [lit ''https://openlibrary.org/search.json?'' @ typeName (searchType w) @
                          lit ''='' @ enc @ lit ''&limit=20''] \<and>
           inflight (searchBooks w) = inflight w @ [(length (fetched w), searchType w)] \<and>
           loading (searchBooks w) \<and> hasSearched (searchBooks w) \<and>
           toasts (searchBooks w) = toasts w"
proof -
  from assms(2) obtain enc where "encodeURIComponent (searchQuery w) = Inr enc"
    using encodable_iff_wellFormed by blast
  with assms(1) show ?thesis
    by (simp add: searchBooks_def Let_def searchUrl_def searchParam_typeName)
qed

theorem search_request_issued_witness:
  "trim (searchQuery (initial\<lparr> searchQuery := lit '' Tolkien '', searchType := Author \<rparr>)) =
     lit ''Tolkien'' \<and>
   encodeURIComponent (searchQuery (initial\<lparr> searchQuery := lit '' Tolkien '', searchType := Author \<rparr>)) =
     Inr (lit ''%20Tolkien%20'') \<and>
   fetched (searchBooks (initial\<lparr> searchQuery := lit '' Tolkien '', searchType := Author \<rparr>)) =
     [lit ''https://openlibrary.org/search.json?author=%20Tolkien%20&limit=20'']"
proof -
  have t: "trim (searchQuery (initial\<lparr> searchQuery := lit '' Tolkien '', searchType := Author \<rparr>)) =
      lit ''Tolkien''"
    by (simp add: trim_def lit_def isWhiteSpace_def)
  have e: "encodeURIComponent (searchQuery (initial\<lparr> searchQuery := lit '' Tolkien '', searchType := Author \<rparr>)) =
      Inr (lit ''%20Tolkien%20'')"
    by (simp add: lit_def uriUnescaped_def isLeadingSurrogate_def isTrailingSurrogate_def
        utf8Octets_def percentEscape_def hexDigit_def)
  have n: "trim (searchQuery (initial\<lparr> searchQuery := lit '' Tolkien '', searchType := Author \<rparr>)) \<noteq> []"
    unfolding t by (simp add: lit_def)
  have f: "isWellFormed (searchQuery (initial\<lparr> searchQuery := lit '' Tolkien '', searchType := Author \<rparr>))"
    by (simp add: lit_def isLeadingSurrogate_def isTrailingSurrogate_def)
  from search_request_issued [OF n f] t e show ?thesis
    by (simp add: initial_def lit_def)
qed

text \<open>
  Claim C3 as written fails in two ways. The term \<^verbatim>\<open>" a"\<close> is sent with its leading
  blank (\<^verbatim>\<open>%20a\<close>), not as the encoding of the trimmed term. A term that is a lone
  surrogate is not blank, yet no URL is fetched for it: the encoder throws and the
  failure notice is raised.
\<close>

theorem untrimmed_term_counterexample:
  "trim (lit '' a'') = lit ''a'' \<and>
   encodeURIComponent (trim (lit '' a'')) = Inr (lit ''a'') \<and>
   fetched (searchBooks (initial\<lparr> searchQuery := lit '' a'' \<rparr>)) =
     [lit ''https://openlibrary.org/search.json?title=%20a&limit=20''] \<and>
   fetched (searchBooks (initial\<lparr> searchQuery := lit '' a'' \<rparr>)) \<noteq>
     [lit ''https://openlibrary.org/search.json?title=a&limit=20''] \<and>
   trim [0xD800] = [0xD800] \<and>
   fetched (searchBooks (initial\<lparr> searchQuery := [0xD800] \<rparr>)) = [] \<and>
   toasts (searchBooks (initial\<lparr> searchQuery := [0xD800] \<rparr>)) = [failureToast]"
  by (simp add: searchBooks_def Let_def initial_def trim_def lit_def isWhiteSpace_def
      uriUnescaped_def isLeadingSurrogate_def isTrailingSurrogate_def utf8Octets_def
      percentEscape_def hexDigit_def searchUrl_def searchParam_def catchFinally_def)

subsection \<open>Settled searches\<close>

text \<open>
  Claim C4. When a pending search of a run of the component settles with an \<^verbatim>\<open>ok\<close>
  response whose body holds one or more records, \<open>books\<close> becomes exactly the returned
  records, the rendering succeeds and its results grid holds one card per record (and
  the "No books found" panel is not shown), and the notice raised is the success notice
  whose text prints \<^verbatim>\<open>numFound\<close>.
\<close>

theorem success_stores_records:
  assumes "map_of (inflight (run initial evs)) i = Some t"
    and "docs data = Some ds" and "ds \<noteq> []"
  shows "books (run initial (evs @ [Settle i (Resolves (Response True (Inr data)))])) = Some ds \<and>
         (\<exists>v. render (run initial (evs @ [Settle i (Resolves (Response True (Inr data)))])) = Some v \<and>
              results v = Some (map renderCard ds) \<and> \<not> no_results v) \<and>
         length (map renderCard ds) = length ds \<and>
         toasts (run initial (evs @ [Settle i (Resolves (Response True (Inr data)))])) =
           toasts (run initial evs) @ [successToast (numFound data)] \<and>
         description (successToast (numFound data)) =
           lit ''Found '' @ numberToString (numFound data) @ lit '' books matching your search.''"
proof -
  from assms(1) have "hasSearched (run initial evs)" by (rule inflight_hasSearched)
  with assms show ?thesis
    by (simp add: run_snoc settle_def resume_success render_def successToast_def)
qed

theorem success_stores_records_witness:
  "map_of (inflight (run initial [Change (lit ''Tolkien''), SelectType Author, KeyPress (lit ''Enter'')])) 0
     = Some Author \<and>
   books (run initial ([Change (lit ''Tolkien''), SelectType Author, KeyPress (lit ''Enter'')] @
     [Settle 0 (Resolves (Response True (Inr \<lparr> docs = Some
        [plainBook (lit ''/works/OL1W'') (lit ''The Hobbit''),
         plainBook (lit ''/works/OL2W'') (lit ''The Silmarillion'')], numFound = 120 \<rparr>)))])) =
     Some [plainBook (lit ''/works/OL1W'') (lit ''The Hobbit''),
           plainBook (lit ''/works/OL2W'') (lit ''The Silmarillion'')] \<and>
   toasts (run initial ([Change (lit ''Tolkien''), SelectType Author, KeyPress (lit ''Enter'')] @
     [Settle 0 (Resolves (Response True (Inr \<lparr> docs = Some
        [plainBook (lit ''/works/OL1W'') (lit ''The Hobbit''),
         plainBook (lit ''/works/OL2W'') (lit ''The Silmarillion'')], numFound = 120 \<rparr>)))])) =
     [\<lparr> toast_title = lit ''Search successful!'',
        description = lit ''Found 120 books matching your search.'', variant = None \<rparr>]"
proof -
  have h: "map_of (inflight (run initial [Change (lit ''Tolkien''), SelectType Author, KeyPress (lit ''Enter'')])) 0
     = Some Author"
    by (simp add: eval_defs)
  have t: "toasts (run initial [Change (lit ''Tolkien''), SelectType Author, KeyPress (lit ''Enter'')]) = []"
    by (simp add: eval_defs)
  have n: "numberToString 120 = lit ''120''"
    by (simp add: numberToString_def digits.simps lit_def)
  from success_stores_records [OF h, of "\<lparr> docs = Some
        [plainBook (lit ''/works/OL1W'') (lit ''The Hobbit''),
         plainBook (lit ''/works/OL2W'') (lit ''The Silmarillion'')], numFound = 120 \<rparr>"
      "[plainBook (lit ''/works/OL1W'') (lit ''The Hobbit''),
         plainBook (lit ''/works/OL2W'') (lit ''The Silmarillion'')]"]
  show ?thesis using h t n by (simp add: successToast_def lit_def)
qed

text \<open>
  Claim C5. When a pending search of a run settles with an \<^verbatim>\<open>ok\<close> response holding
  no records, \<open>books\<close> is empty, the rendering succeeds with the "No books found" panel
  and without the results grid, nothing is written to the console, and the notice
  raised is the non-destructive one that suggests different terms, not the failure
  notice.
\<close>

theorem empty_result_is_not_failure:
  assumes "map_of (inflight (run initial evs)) i = Some t" and "docs data = Some []"
  shows "books (run initial (evs @ [Settle i (Resolves (Response True (Inr data)))])) = Some [] \<and>
         (\<exists>v. render (run initial (evs @ [Settle i (Resolves (Response True (Inr data)))])) = Some v \<and>
              no_results v \<and> results v = None) \<and>
         toasts (run initial (evs @ [Settle i (Resolves (Response True (Inr data)))])) =
           toasts (run initial evs) @ [noBooksToast t] \<and>
         console (run initial (evs @ [Settle i (Resolves (Response True (Inr data)))])) =
           console (run initial evs) \<and>
         noBooksToast t \<noteq> failureToast \<and>
         variant (noBooksToast t) = None \<and>
         toast_title (noBooksToast t) = lit ''No books found'' \<and>
         description (noBooksToast t) =
           lit ''Try searching with different '' @ typeName t @ lit '' terms.''"
proof -
  from assms(1) have "hasSearched (run initial evs)" by (rule inflight_hasSearched)
  with assms show ?thesis
    by (simp add: run_snoc settle_def resume_success render_def noBooksToast_def failureToast_def)
qed

theorem empty_result_is_not_failure_witness:
  "map_of (inflight (run initial [Change (lit ''zzzz''), KeyPress (lit ''Enter'')])) 0 = Some Title \<and>
   map_option no_results (render (run initial ([Change (lit ''zzzz''), KeyPress (lit ''Enter'')] @
     [Settle 0 (Resolves (Response True (Inr \<lparr> docs = Some [], numFound = 0 \<rparr>)))]))) = Some True \<and>
   toasts (run initial ([Change (lit ''zzzz''), KeyPress (lit ''Enter'')] @
     [Settle 0 (Resolves (Response True (Inr \<lparr> docs = Some [], numFound = 0 \<rparr>)))])) =
     [\<lparr> toast_title = lit ''No books found'',
        description = lit ''Try searching with different title terms.'', variant = None \<rparr>]"
proof -
  have h: "map_of (inflight (run initial [Change (lit ''zzzz''), KeyPress (lit ''Enter'')])) 0 = Some Title"
    by (simp add: eval_defs)
  have t: "toasts (run initial [Change (lit ''zzzz''), KeyPress (lit ''Enter'')]) = []"
    by (simp add: eval_defs)
  from empty_result_is_not_failure [OF h, of "\<lparr> docs = Some [], numFound = 0 \<rparr>"]
  show ?thesis using h t by (auto simp: noBooksToast_def lit_def)
qed

text \<open>
  Claim C6, as amended. When a pending search settles so that the \<^verbatim>\<open>try\<close> block
  throws before the body is read (the fetch rejects, the response is not \<^verbatim>\<open>ok\<close>, or
  the body does not parse), the fixed failure notice is raised, which is the same for
  every error; the error goes to the console only; \<open>loading\<close> is cleared; no further
  URL is fetched and no new call is left in flight; \<open>books\<close> and \<open>hasSearched\<close> keep
  their values. No cell records the failure: what is rendered afterwards is what the
  cells before the failure render once \<open>loading\<close> is cleared.
\<close>

theorem failure_is_reported:
  assumes "map_of (inflight w) i = Some t" and "transportError outcome = Some e"
  shows "toasts (step w (Settle i outcome)) = toasts w @ [failureToast] \<and>
         console (step w (Settle i outcome)) = console w @ [(lit ''Search error:'', e)] \<and>
         fetched (step w (Settle i outcome)) = fetched w \<and>
         inflight (step w (Settle i outcome)) = filter (\<lambda>p. fst p \<noteq> i) (inflight w) \<and>
         \<not> loading (step w (Settle i outcome)) \<and>
         books (step w (Settle i outcome)) = books w \<and>
         hasSearched (step w (Settle i outcome)) = hasSearched w \<and>
         searchQuery (step w (Settle i outcome)) = searchQuery w \<and>
         searchType (step w (Settle i outcome)) = searchType w \<and>
         render (step w (Settle i outcome)) = render (w\<lparr> loading := False \<rparr>) \<and>
         transportError (Rejects e') = Some e' \<and>
         transportError (Resolves (Response False body)) =
           Some (Error (lit ''Failed to fetch books''))"
  using assms
  by (simp add: settle_def resume_transportError catchFinally_def transportError_def render_def
      split: option.splits)

theorem failure_is_reported_witness:
  "toasts (step (run initial [Change (lit ''dune''), KeyPress (lit ''Enter'')])
      (Settle 0 (Resolves (Response False (Inl (SyntaxError (lit ''Unexpected token''))))))) =
     [\<lparr> toast_title = lit ''Search failed'',
        description = lit ''There was an error searching for books. Please try again.'',
        variant = Some (lit ''destructive'') \<rparr>] \<and>
   console (step (run initial [Change (lit ''dune''), KeyPress (lit ''Enter'')])
      (Settle 0 (Resolves (Response False (Inl (SyntaxError (lit ''Unexpected token''))))))) =
     [(lit ''Search error:'', Error (lit ''Failed to fetch books''))] \<and>
   fetched (step (run initial [Change (lit ''dune''), KeyPress (lit ''Enter'')])
      (Settle 0 (Resolves (Response False (Inl (SyntaxError (lit ''Unexpected token''))))))) =
     [lit ''https://openlibrary.org/search.json?title=dune&limit=20''] \<and>
   inflight (step (run initial [Change (lit ''dune''), KeyPress (lit ''Enter'')])
      (Settle 0 (Resolves (Response False (Inl (SyntaxError (lit ''Unexpected token''))))))) = []"
proof -
  have h: "map_of (inflight (run initial [Change (lit ''dune''), KeyPress (lit ''Enter'')])) 0 = Some Title"
    by (simp add: eval_defs)
  have th: "transportError (Resolves (Response False (Inl (SyntaxError (lit ''Unexpected token''))))) =
      Some (Error (lit ''Failed to fetch books''))"
    by (simp add: transportError_def)
  have s: "toasts (run initial [Change (lit ''dune''), KeyPress (lit ''Enter'')]) = [] \<and>
      console (run initial [Change (lit ''dune''), KeyPress (lit ''Enter'')]) = [] \<and>
      fetched (run initial [Change (lit ''dune''), KeyPress (lit ''Enter'')]) =
        [lit ''https://openlibrary.org/search.json?title=dune&limit=20''] \<and>
      inflight (run initial [Change (lit ''dune''), KeyPress (lit ''Enter'')]) = [(0, Title)]"
    by (simp add: eval_defs)
  from failure_is_reported [OF h th] show ?thesis
    using s by (simp add: failureToast_def)
qed

text \<open>
  Claim C6 as written fails: there is no failed state to enter. After a first search
  whose fetch is rejected, the five state cells and the rendering are those left by a
  first search that found nothing: the "No books found" panel is shown.
\<close>

theorem no_failed_state_counterexample:
  "render (run initial [Change (lit ''dune''), KeyPress (lit ''Enter''),
                        Settle 0 (Rejects (TypeError (lit ''Failed to fetch'')))]) =
   render (run initial [Change (lit ''dune''), KeyPress (lit ''Enter''),
                        Settle 0 (Resolves (Response True (Inr \<lparr> docs = Some [], numFound = 0 \<rparr>)))]) \<and>
   map_option no_results
     (render (run initial [Change (lit ''dune''), KeyPress (lit ''Enter''),
                           Settle 0 (Rejects (TypeError (lit ''Failed to fetch'')))])) = Some True \<and>
   books (run initial [Change (lit ''dune''), KeyPress (lit ''Enter''),
                       Settle 0 (Rejects (TypeError (lit ''Failed to fetch'')))]) =
   books (run initial [Change (lit ''dune''), KeyPress (lit ''Enter''),
                       Settle 0 (Resolves (Response True (Inr \<lparr> docs = Some [], numFound = 0 \<rparr>)))]) \<and>
   loading (run initial [Change (lit ''dune''), KeyPress (lit ''Enter''),
                         Settle 0 (Rejects (TypeError (lit ''Failed to fetch'')))]) =
   loading (run initial [Change (lit ''dune''), KeyPress (lit ''Enter''),
                         Settle 0 (Resolves (Response True (Inr \<lparr> docs = Some [], numFound = 0 \<rparr>)))]) \<and>
   hasSearched (run initial [Change (lit ''dune''), KeyPress (lit ''Enter''),
                             Settle 0 (Rejects (TypeError (lit ''Failed to fetch'')))]) =
   hasSearched (run initial [Change (lit ''dune''), KeyPress (lit ''Enter''),
                             Settle 0 (Resolves (Response True (Inr \<lparr> docs = Some [], numFound = 0 \<rparr>)))]) \<and>
   searchQuery (run initial [Change (lit ''dune''), KeyPress (lit ''Enter''),
                             Settle 0 (Rejects (TypeError (lit ''Failed to fetch'')))]) =
   searchQuery (run initial [Change (lit ''dune''), KeyPress (lit ''Enter''),
                             Settle 0 (Resolves (Response True (Inr \<lparr> docs = Some [], numFound = 0 \<rparr>)))]) \<and>
   searchType (run initial [Change (lit ''dune''), KeyPress (lit ''Enter''),
                            Settle 0 (Rejects (TypeError (lit ''Failed to fetch'')))]) =
   searchType (run initial [Change (lit ''dune''), KeyPress (lit ''Enter''),
                            Settle 0 (Resolves (Response True (Inr \<lparr> docs = Some [], numFound = 0 \<rparr>)))])"
  by (simp add: eval_defs)




subsection \<open>Overlapping searches\<close>

text \<open>
  Claim C2, as amended. Responses are applied in the order in which they arrive: when
  two searches are pending and both settle successfully, \<open>books\<close> holds the records
  of the one that settled last, whichever of the two was started first.
\<close>

theorem responses_apply_in_arrival_order:
  assumes "i \<noteq> j"
    and "map_of (inflight w) i = Some ti"
    and "map_of (inflight w) j = Some tj"
  shows "books (run w [Settle i (Resolves (Response True (Inr di)))]) = docs di \<and>
         books (run w [Settle i (Resolves (Response True (Inr di))),
                       Settle j (Resolves (Response True (Inr dj)))]) = docs dj"
  using assms
  by (simp add: settle_def resume_parsed_books resume_keeps map_of_filter_other)

theorem responses_apply_in_arrival_order_witness:
  "inflight (run initial [Change (lit ''emma''), KeyPress (lit ''Enter''),
                          SelectType Author, Change (lit ''austen''), KeyPress (lit ''Enter'')]) =
     [(0, Title), (1, Author)] \<and>
   books (run (run initial [Change (lit ''emma''), KeyPress (lit ''Enter''),
                            SelectType Author, Change (lit ''austen''), KeyPress (lit ''Enter'')])
      [Settle 0 (Resolves (Response True
         (Inr \<lparr> docs = Some [plainBook (lit ''/works/OL1W'') (lit ''Emma'')], numFound = 1 \<rparr>))),
       Settle 1 (Resolves (Response True
         (Inr \<lparr> docs = Some [plainBook (lit ''/works/OL2W'') (lit ''Persuasion'')], numFound = 1 \<rparr>)))]) =
     Some [plainBook (lit ''/works/OL2W'') (lit ''Persuasion'')]"
proof -
  have s: "inflight (run initial [Change (lit ''emma''), KeyPress (lit ''Enter''),
                          SelectType Author, Change (lit ''austen''), KeyPress (lit ''Enter'')]) =
     [(0, Title), (1, Author)]"
    by (simp add: eval_defs)
  have ne: "(0::nat) \<noteq> 1" by simp
  have a: "map_of (inflight (run initial [Change (lit ''emma''), KeyPress (lit ''Enter''),
                          SelectType Author, Change (lit ''austen''), KeyPress (lit ''Enter'')])) 0 = Some Title"
    unfolding s by simp
  have b: "map_of (inflight (run initial [Change (lit ''emma''), KeyPress (lit ''Enter''),
                          SelectType Author, Change (lit ''austen''), KeyPress (lit ''Enter'')])) 1 = Some Author"
    unfolding s by simp
  from responses_apply_in_arrival_order [OF ne a b,
      of "\<lparr> docs = Some [plainBook (lit ''/works/OL1W'') (lit ''Emma'')], numFound = 1 \<rparr>"
         "\<lparr> docs = Some [plainBook (lit ''/works/OL2W'') (lit ''Persuasion'')], numFound = 1 \<rparr>"]
  show ?thesis using s by simp
qed

text \<open>
  Claim C2 as written fails. A search for \<^verbatim>\<open>a\<close> and then a search for \<^verbatim>\<open>b\<close> are
  started with the Enter key; the newer one settles first and its record is stored;
  when the older one settles, its record replaces it, while the input still reads
  \<^verbatim>\<open>b\<close>.
\<close>

theorem stale_response_overwrites_counterexample:
  "fetched (run initial [Change (lit ''a''), KeyPress (lit ''Enter''),
                         Change (lit ''b''), KeyPress (lit ''Enter'')]) =
     [lit ''https://openlibrary.org/search.json?title=a&limit=20'',
      lit ''https://openlibrary.org/search.json?title=b&limit=20''] \<and>
   inflight (run initial [Change (lit ''a''), KeyPress (lit ''Enter''),
                          Change (lit ''b''), KeyPress (lit ''Enter'')]) =
     [(0, Title), (1, Title)] \<and>
   books (run initial [Change (lit ''a''), KeyPress (lit ''Enter''),
                       Change (lit ''b''), KeyPress (lit ''Enter''),
      Settle 1 (Resolves (Response True
        (Inr \<lparr> docs = Some [plainBook (lit ''/works/OL2W'') (lit ''B'')], numFound = 1 \<rparr>)))]) =
     Some [plainBook (lit ''/works/OL2W'') (lit ''B'')] \<and>
   books (run initial [Change (lit ''a''), KeyPress (lit ''Enter''),
                       Change (lit ''b''), KeyPress (lit ''Enter''),
      Settle 1 (Resolves (Response True
        (Inr \<lparr> docs = Some [plainBook (lit ''/works/OL2W'') (lit ''B'')], numFound = 1 \<rparr>))),
      Settle 0 (Resolves (Response True
        (Inr \<lparr> docs = Some [plainBook (lit ''/works/OL1W'') (lit ''A'')], numFound = 1 \<rparr>)))]) =
     Some [plainBook (lit ''/works/OL1W'') (lit ''A'')] \<and>
   searchQuery (run initial [Change (lit ''a''), KeyPress (lit ''Enter''),
                       Change (lit ''b''), KeyPress (lit ''Enter''),
      Settle 1 (Resolves (Response True
        (Inr \<lparr> docs = Some [plainBook (lit ''/works/OL2W'') (lit ''B'')], numFound = 1 \<rparr>))),
      Settle 0 (Resolves (Response True
        (Inr \<lparr> docs = Some [plainBook (lit ''/works/OL1W'') (lit ''A'')], numFound = 1 \<rparr>)))]) =
     lit ''b''"
  by (simp add: eval_defs)

end
